theory Spec2Isabelle
  imports Main "HOL-Library.Sublist" "HOL-Library.Word"
begin

section \<open>The failover firewall service (iptables\_linux.py)\<close>

text \<open>
  The module \<^verbatim>\<open>plugins/failover_/iptables_linux.py\<close> holds one service class with
  five methods: \<^verbatim>\<open>generate_rules\<close>, \<^verbatim>\<open>write_files\<close>, \<^verbatim>\<open>restore_files\<close>,
  \<^verbatim>\<open>drop_all\<close> and \<^verbatim>\<open>accept_all\<close>. Each is embedded below as a HOL function of
  the same name. Python text is a \<^typ>\<open>string\<close>, the line terminator \<^verbatim>\<open>\n\<close> is the
  character \<^term>\<open>CHR 0x0A\<close>, Python integers are \<^typ>\<open>int\<close>, captured process output
  is a list of bytes, and a raised exception is the left injection of a sum.
\<close>

subsection \<open>Constants of the module\<close>

definition V4_FILE :: string where
  "V4_FILE = ''/data/v4-fw.rules''"

definition V6_FILE :: string where
  "V6_FILE = ''/data/v6-fw.rules''"

subsection \<open>Data\<close>

type_synonym path = string
type_synonym bytes = "8 word list"
type_synonym rules = "string list"

text \<open>
  One entry of the list returned by \<^verbatim>\<open>interface.ip_in_use\<close>: the generator reads the
  keys \<^verbatim>\<open>'type'\<close> and \<^verbatim>\<open>'address'\<close> of each entry and nothing else.
\<close>

record vip =
  vip_type :: string
  address :: string

text \<open>The dictionary \<^verbatim>\<open>data\<close> handed to \<^verbatim>\<open>generate_rules\<close>, keys \<^verbatim>\<open>'drop'\<close> and \<^verbatim>\<open>'vips'\<close>.\<close>

record data =
  drop_mode :: bool
  vips :: "vip list"

datatype exn = CallError string | AttributeError string

text \<open>
  What the service observes of the outside: every \<^verbatim>\<open>middleware.call\<close>, every
  \<^verbatim>\<open>open\<close> of a file for writing, and every shell command started with
  \<^verbatim>\<open>subprocess.Popen\<close>.
\<close>

datatype event = Call string | OpenW path | Exec string

record world =
  files :: "path \<rightharpoonup> string"
  trace :: "event list"

text \<open>
  The collaborators the service depends on and does not implement. The first five
  fields are the answers of the middleware calls \<^verbatim>\<open>failover.licensed\<close>,
  \<^verbatim>\<open>interface.ip_in_use\<close>, \<^verbatim>\<open>ssh.config\<close> (key \<^verbatim>\<open>tcpport\<close>) and
  \<^verbatim>\<open>system.general.config\<close> (keys \<^verbatim>\<open>ui_port\<close>, \<^verbatim>\<open>ui_httpsport\<close>).
  \<open>write_fault p\<close> says whether opening or writing the file \<open>p\<close> raises: \<open>Some (msg, left)\<close>
  is an exception whose text is \<open>msg\<close> and that leaves \<open>left\<close> at that path.
  \<open>popen cmd fs\<close> is the outcome of running the shell command \<open>cmd\<close> on the file system
  \<open>fs\<close>: the return code and the captured standard output and standard error.
  \<open>decode_ignore\<close> is the library function \<^verbatim>\<open>bytes.decode("utf8", "ignore")\<close>.
\<close>

record env =
  licensed :: bool
  ip_in_use :: "vip list"
  tcpport :: int
  ui_port :: int
  ui_httpsport :: int
  write_fault :: "path \<Rightarrow> (string \<times> string option) option"
  popen :: "string \<Rightarrow> (path \<rightharpoonup> string) \<Rightarrow> int \<times> bytes \<times> bytes"
  decode_ignore :: "bytes \<Rightarrow> string"

definition emit :: "event \<Rightarrow> world \<Rightarrow> world" where
  "emit ev w = w\<lparr>trace := trace w @ [ev]\<rparr>"

subsection \<open>Formatting integers\<close>

text \<open>An f-string field \<^verbatim>\<open>{sshport}\<close> renders a Python integer in decimal, as \<^verbatim>\<open>str\<close> does.\<close>

definition digit_char :: "nat \<Rightarrow> char" where
  "digit_char d = ''0123456789'' ! d"

fun str_nat :: "nat \<Rightarrow> string" where
  "str_nat n = (if n < 10 then [digit_char n] else str_nat (n div 10) @ [digit_char (n mod 10)])"

declare str_nat.simps [simp del]

definition str_int :: "int \<Rightarrow> string" where
  "str_int i = (if i < 0 then ''-'' @ str_nat (nat (- i)) else str_nat (nat i))"

subsection \<open>The rule generator\<close>

text \<open>Python's \<^verbatim>\<open>list.insert(i, x)\<close> for \<open>i \<ge> 0\<close>: past the end it appends.\<close>

definition list_insert :: "nat \<Rightarrow> 'a \<Rightarrow> 'a list \<Rightarrow> 'a list" where
  "list_insert i x xs = take i xs @ [x] @ drop i xs"

definition accept_rule :: "int \<Rightarrow> string" where
  "accept_rule port = ''-A INPUT -p tcp -m tcp --dport '' @ str_int port @ '' -j ACCEPT\<newline>''"

definition v4_drop_rule :: "string \<Rightarrow> string" where
  "v4_drop_rule a = ''-A INPUT -s '' @ a @ ''/32 -j DROP\<newline>''"

definition v6_drop_rule :: "string \<Rightarrow> string" where
  "v6_drop_rule a = ''-A INPUT -d '' @ a @ ''/128 -j DROP\<newline>''"

text \<open>The body of the loop over \<^verbatim>\<open>data['vips']\<close>, on the pair of rule lists.\<close>

fun vip_step :: "vip \<Rightarrow> rules \<times> rules \<Rightarrow> rules \<times> rules" where
  "vip_step i (v4rules, v6rules) =
     (if vip_type i = ''INET'' then (v4rules @ [v4_drop_rule (address i)], v6rules)
      else if vip_type i = ''INET6'' then (v4rules, v6rules @ [v6_drop_rule (address i)])
      else (v4rules, v6rules))"

definition default_section :: "rules \<Rightarrow> rules" where
  "default_section r =
     list_insert 3 '':OUTPUT ACCEPT [0:0]\<newline>''
       (list_insert 2 '':FORWARD ACCEPT [0:0]\<newline>''
         (list_insert 1 '':INPUT ACCEPT [0:0]\<newline>'' r))"

definition generate_rules :: "env \<Rightarrow> data \<Rightarrow> world \<Rightarrow> (rules \<times> rules) \<times> world" where
  "generate_rules e d w =
     (let v4rules = default_section [''*filter\<newline>''];
          v6rules = default_section [''*filter\<newline>''];
          ((v4rules, v6rules), w) =
            (if drop_mode d then
               let w = emit (Call ''ssh.config'') w;
                   sshport = tcpport e;
                   w = emit (Call ''system.general.config'') w;
                   v4rules = v4rules @ [accept_rule sshport];
                   v4rules = v4rules @ [accept_rule (ui_port e)];
                   v4rules = v4rules @ [accept_rule (ui_httpsport e)];
                   v6rules = v6rules @ [accept_rule sshport];
                   v6rules = v6rules @ [accept_rule (ui_port e)];
                   v6rules = v6rules @ [accept_rule (ui_httpsport e)]
               in (fold vip_step (vips d) (v4rules, v6rules), w)
             else ((v4rules, v6rules), w))
      in ((v4rules @ [''COMMIT\<newline>''], v6rules @ [''COMMIT\<newline>'']), w))"

subsection \<open>The file writer\<close>

text \<open>
  One \<^verbatim>\<open>with open(p, 'w+') as f: f.writelines(lines)\<close> block: the attempt is
  recorded, then either the fault of the environment is raised or the file holds the
  lines, one after the other.
\<close>

definition open_writelines :: "env \<Rightarrow> path \<Rightarrow> rules \<Rightarrow> world \<Rightarrow> (string + unit) \<times> world" where
  "open_writelines e p ls w =
     (let w = emit (OpenW p) w in
      case write_fault e p of
        Some (msg, left) \<Rightarrow> (Inl msg, w\<lparr>files := (files w)(p := left)\<rparr>)
      | None \<Rightarrow> (Inr (), w\<lparr>files := (files w)(p \<mapsto> concat ls)\<rparr>))"

definition write_files :: "env \<Rightarrow> rules \<Rightarrow> rules \<Rightarrow> world \<Rightarrow> (exn + unit) \<times> world" where
  "write_files e v4rules v6rules w =
     (case open_writelines e V4_FILE v4rules w of
        (Inl msg, w) \<Rightarrow>
          (Inl (CallError (''Failed writing '' @ V4_FILE @ '' with error '' @ msg)), w)
      | (Inr _, w) \<Rightarrow>
          (case open_writelines e V6_FILE v6rules w of
             (Inl msg, w) \<Rightarrow>
               (Inl (CallError (''Failed writing '' @ V6_FILE @ '' with error '' @ msg)), w)
           | (Inr _, w) \<Rightarrow> (Inr (), w)))"

subsection \<open>The activator\<close>

text \<open>
  The second error path calls \<^verbatim>\<open>err.deocde\<close>, an attribute that \<^verbatim>\<open>bytes\<close> does not
  have: evaluating the f-string raises \<^verbatim>\<open>AttributeError\<close> before any \<^verbatim>\<open>CallError\<close> is
  built. The model's \<open>AttributeError\<close> carries the name of the missing attribute.
\<close>

definition restore_files :: "env \<Rightarrow> rules \<Rightarrow> rules \<Rightarrow> world \<Rightarrow> (exn + unit) \<times> world" where
  "restore_files e v4rules v6rules w =
     (let cmd = ''iptables-restore < '' @ V4_FILE;
          w = emit (Exec cmd) w;
          (returncode, out, err) = popen e cmd (files w)
      in if returncode \<noteq> 0 then
           (Inl (CallError (''Failed restoring firewall rules: '' @ decode_ignore e err)), w)
         else
           let cmd2 = ''ip6tables-restore < '' @ V6_FILE;
               w = emit (Exec cmd2) w;
               (returncode, out, err) = popen e cmd2 (files w)
           in if returncode \<noteq> 0 then
                (Inl (AttributeError ''deocde''), w)
              else (Inr (), w))"

subsection \<open>The two operations\<close>

definition drop_all :: "env \<Rightarrow> world \<Rightarrow> (exn + bool) \<times> world" where
  "drop_all e w =
     (let w = emit (Call ''failover.licensed'') w in
      if \<not> licensed e then (Inr False, w)
      else
        let w = emit (Call ''interface.ip_in_use'') w;
            vips = ip_in_use e
        in if vips = [] then (Inl (CallError ''No VIP addresses detected on system''), w)
           else
             let d = \<lparr>drop_mode = True, vips = vips\<rparr>;
                 w = emit (Call ''failover.firewall.generate_rules'') w;
                 ((v4rules, v6rules), w) = generate_rules e d w;
                 w = emit (Call ''failover.firewall.write_files'') w
             in case write_files e v4rules v6rules w of
                  (Inl x, w) \<Rightarrow> (Inl x, w)
                | (Inr _, w) \<Rightarrow>
                    (let w = emit (Call ''failover.firewall.restore_files'') w
                     in case restore_files e v4rules v6rules w of
                          (Inl x, w) \<Rightarrow> (Inl x, w)
                        | (Inr _, w) \<Rightarrow> (Inr True, w)))"

definition accept_all :: "env \<Rightarrow> world \<Rightarrow> (exn + bool) \<times> world" where
  "accept_all e w =
     (let w = emit (Call ''failover.licensed'') w in
      if \<not> licensed e then (Inr False, w)
      else
        let d = \<lparr>drop_mode = False, vips = []\<rparr>;
            w = emit (Call ''failover.firewall.generate_rules'') w;
            ((v4rules, v6rules), w) = generate_rules e d w;
            w = emit (Call ''failover.firewall.write_files'') w
        in case write_files e v4rules v6rules w of
             (Inl x, w) \<Rightarrow> (Inl x, w)
           | (Inr _, w) \<Rightarrow>
               (let w = emit (Call ''failover.firewall.restore_files'') w
                in case restore_files e v4rules v6rules w of
                     (Inl x, w) \<Rightarrow> (Inl x, w)
                   | (Inr _, w) \<Rightarrow> (Inr True, w)))"

subsection \<open>Reading a rule list\<close>

text \<open>
  A rule line names its target last: an accept line ends in \<^verbatim>\<open>-j ACCEPT\<close>, a drop
  line in \<^verbatim>\<open>-j DROP\<close>. The events a run appends to the trace are what follows the
  trace it started from.
\<close>

definition is_accept_line :: "string \<Rightarrow> bool" where
  "is_accept_line l = suffix '' -j ACCEPT\<newline>'' l"

definition is_drop_line :: "string \<Rightarrow> bool" where
  "is_drop_line l = suffix '' -j DROP\<newline>'' l"

definition new_events :: "world \<Rightarrow> world \<Rightarrow> event list" where
  "new_events w w' = drop (length (trace w)) (trace w')"

definition is_exec :: "event \<Rightarrow> bool" where
  "is_exec ev = (case ev of Exec _ \<Rightarrow> True | _ \<Rightarrow> False)"

subsection \<open>Example environments\<close>

text \<open>
  Concrete collaborators on which the functions are evaluated. \<open>ascii_ignore\<close> is a
  stand-in for the decoder of an example environment and not the library function: it
  keeps the bytes below 128 as characters and leaves every other byte out, so it agrees
  with \<^verbatim>\<open>bytes.decode("utf8", "ignore")\<close> only on input that holds no valid multi-byte
  sequence. The one byte string decoded below, \<^verbatim>\<open>Ba\xffd\<close>, is such an input. The
  general theorems take the decoder of the environment as it is given.
\<close>

definition ascii_ignore :: "bytes \<Rightarrow> string" where
  "ascii_ignore bs = map (\<lambda>b. char_of (unat b)) (filter (\<lambda>b. b < 128) bs)"

definition world0 :: world where
  "world0 = \<lparr>files = Map.empty, trace = []\<rparr>"

definition example_vips :: "vip list" where
  "example_vips =
     [\<lparr>vip_type = ''INET'', address = ''10.0.0.5''\<rparr>,
      \<lparr>vip_type = ''INET6'', address = ''fd00::5''\<rparr>,
      \<lparr>vip_type = ''LINK'', address = ''aa:bb:cc:dd:ee:ff''\<rparr>]"

definition example_env :: env where
  "example_env =
     \<lparr>licensed = True, ip_in_use = example_vips,
      tcpport = 22, ui_port = 80, ui_httpsport = 443,
      write_fault = (\<lambda>p. None),
      popen = (\<lambda>cmd fs. (0, [], [])),
      decode_ignore = ascii_ignore\<rparr>"

definition v4_fails_env :: env where
  "v4_fails_env = example_env\<lparr>popen := (\<lambda>cmd fs.
     if cmd = ''iptables-restore < /data/v4-fw.rules'' then (1, [], [0x42, 0x61, 0xFF, 0x64])
     else (0, [], []))\<rparr>"

definition v6_fails_env :: env where
  "v6_fails_env = example_env\<lparr>popen := (\<lambda>cmd fs.
     if cmd = ''ip6tables-restore < /data/v6-fw.rules'' then (1, [], [0x42, 0x61, 0xFF, 0x64])
     else (0, [], []))\<rparr>"

definition v6_write_fails_env :: env where
  "v6_write_fails_env = example_env\<lparr>write_fault := (\<lambda>p.
     if p = ''/data/v6-fw.rules'' then Some (''[Errno 28] No space left on device'', Some [])
     else None)\<rparr>"

definition v4_write_fails_env :: env where
  "v4_write_fails_env = example_env\<lparr>write_fault := (\<lambda>p.
     if p = ''/data/v4-fw.rules'' then Some (''[Errno 5] Input/output error'', None)
     else None)\<rparr>"

definition unlicensed_env :: env where
  "unlicensed_env = example_env\<lparr>licensed := False\<rparr>"

definition no_vips_env :: env where
  "no_vips_env = example_env\<lparr>ip_in_use := []\<rparr>"

section \<open>Properties\<close>

subsection \<open>Decimal rendering is injective\<close>

lemma digit_char_inj: "d < 10 \<Longrightarrow> d' < 10 \<Longrightarrow> digit_char d = digit_char d' \<Longrightarrow> d = d'"
proof -
  assume a: "d < 10" "d' < 10" "digit_char d = digit_char d'"
  have dist: "distinct ''0123456789''" by simp
  have len: "length ''0123456789'' = 10" by simp
  from a show ?thesis
    unfolding digit_char_def using dist len nth_eq_iff_index_eq by metis
qed

lemma digit_char_in: "d < 10 \<Longrightarrow> digit_char d \<in> set ''0123456789''"
proof -
  assume "d < 10"
  then have "d < length ''0123456789''" by simp
  then show ?thesis unfolding digit_char_def by (rule nth_mem)
qed

lemma str_nat_nonempty: "str_nat n \<noteq> []"
  by (subst str_nat.simps) simp

lemma str_nat_digits: "set (str_nat n) \<subseteq> set ''0123456789''"
proof (induction n rule: str_nat.induct)
  case (1 n)
  show ?case
  proof (cases "n < 10")
    case True
    then show ?thesis using digit_char_in [of n] by (subst str_nat.simps) simp
  next
    case False
    have "n mod 10 < 10" by simp
    then have "digit_char (n mod 10) \<in> set ''0123456789''" by (rule digit_char_in)
    with False 1 show ?thesis by (subst str_nat.simps) simp
  qed
qed

lemma str_nat_inj: "str_nat n = str_nat m \<Longrightarrow> n = m"
proof (induction n arbitrary: m rule: str_nat.induct)
  case (1 n)
  show ?case
  proof (cases "n < 10")
    case n: True
    show ?thesis
    proof (cases "m < 10")
      case True
      with n 1(2) show ?thesis
        by (simp add: str_nat.simps [of n] str_nat.simps [of m] digit_char_inj)
    next
      case False
      with n 1(2) show ?thesis
        using str_nat_nonempty [of "m div 10"]
        by (simp add: str_nat.simps [of n] str_nat.simps [of m])
    qed
  next
    case n: False
    show ?thesis
    proof (cases "m < 10")
      case True
      with n 1(2) show ?thesis
        using str_nat_nonempty [of "n div 10"]
        by (simp add: str_nat.simps [of n] str_nat.simps [of m])
    next
      case False
      with n 1(2) have eq: "str_nat (n div 10) = str_nat (m div 10)"
        and dg: "digit_char (n mod 10) = digit_char (m mod 10)"
        by (simp_all add: str_nat.simps [of n] str_nat.simps [of m])
      from 1(1) [OF n eq] have d: "n div 10 = m div 10" .
      have "n mod 10 = m mod 10" using dg by (intro digit_char_inj) simp_all
      with d show ?thesis by (metis div_mult_mod_eq)
    qed
  qed
qed

lemma str_int_inj: "str_int i = str_int j \<Longrightarrow> i = j"
proof -
  assume a: "str_int i = str_int j"
  have nd: "CHR ''-'' \<notin> set (str_nat k)" for k
    using str_nat_digits [of k] by auto
  show ?thesis
  proof (cases "i < 0")
    case i: True
    show ?thesis
    proof (cases "j < 0")
      case True
      with i a have "nat (- i) = nat (- j)" by (simp add: str_int_def str_nat_inj)
      with i True show ?thesis by simp
    next
      case False
      with i a have "CHR ''-'' # str_nat (nat (- i)) = str_nat (nat j)" by (simp add: str_int_def)
      then have "CHR ''-'' \<in> set (str_nat (nat j))" by (metis list.set_intros(1))
      with nd show ?thesis by simp
    qed
  next
    case i: False
    show ?thesis
    proof (cases "j < 0")
      case True
      with i a have "str_nat (nat i) = CHR ''-'' # str_nat (nat (- j))" by (simp add: str_int_def)
      then have "CHR ''-'' \<in> set (str_nat (nat i))" by (metis list.set_intros(1))
      with nd show ?thesis by simp
    next
      case False
      with i a have "nat i = nat j" by (simp add: str_int_def str_nat_inj)
      with i False show ?thesis by simp
    qed
  qed
qed

lemma accept_rule_inj: "accept_rule p = accept_rule q \<Longrightarrow> p = q"
  by (simp add: accept_rule_def str_int_inj)

subsection \<open>The shape of the generated rule lists\<close>

lemma default_section_filter:
  "default_section [''*filter\<newline>''] =
     [''*filter\<newline>'', '':INPUT ACCEPT [0:0]\<newline>'', '':FORWARD ACCEPT [0:0]\<newline>'',
      '':OUTPUT ACCEPT [0:0]\<newline>'']"
  by (simp add: default_section_def list_insert_def)

lemma fold_vip_step:
  "fold vip_step vs (a, b) =
     (a @ map (\<lambda>i. v4_drop_rule (address i)) (filter (\<lambda>i. vip_type i = ''INET'') vs),
      b @ map (\<lambda>i. v6_drop_rule (address i)) (filter (\<lambda>i. vip_type i = ''INET6'') vs))"
  by (induction vs arbitrary: a b) auto

lemma generate_rules_block:
  "drop_mode d \<Longrightarrow> fst (generate_rules e d w) =
     (default_section [''*filter\<newline>''] @
        [accept_rule (tcpport e), accept_rule (ui_port e), accept_rule (ui_httpsport e)] @
        map (\<lambda>i. v4_drop_rule (address i)) (filter (\<lambda>i. vip_type i = ''INET'') (vips d)) @
        [''COMMIT\<newline>''],
      default_section [''*filter\<newline>''] @
        [accept_rule (tcpport e), accept_rule (ui_port e), accept_rule (ui_httpsport e)] @
        map (\<lambda>i. v6_drop_rule (address i)) (filter (\<lambda>i. vip_type i = ''INET6'') (vips d)) @
        [''COMMIT\<newline>''])"
  by (simp add: generate_rules_def Let_def fold_vip_step)

lemma accept_rule_is_accept [simp]: "is_accept_line (accept_rule p)"
  by (simp add: is_accept_line_def accept_rule_def suffix_to_prefix)

lemma accept_rule_not_drop [simp]: "\<not> is_drop_line (accept_rule p)"
  by (simp add: is_drop_line_def accept_rule_def suffix_to_prefix)

lemma v4_drop_is_drop [simp]: "is_drop_line (v4_drop_rule a)"
  by (simp add: is_drop_line_def v4_drop_rule_def suffix_to_prefix)

lemma v6_drop_is_drop [simp]: "is_drop_line (v6_drop_rule a)"
  by (simp add: is_drop_line_def v6_drop_rule_def suffix_to_prefix)

lemma v4_drop_not_accept [simp]: "\<not> is_accept_line (v4_drop_rule a)"
  by (simp add: is_accept_line_def v4_drop_rule_def suffix_to_prefix)

lemma v6_drop_not_accept [simp]: "\<not> is_accept_line (v6_drop_rule a)"
  by (simp add: is_accept_line_def v6_drop_rule_def suffix_to_prefix)

lemma header_neither:
  "l \<in> set (default_section [''*filter\<newline>'']) \<Longrightarrow> \<not> is_accept_line l \<and> \<not> is_drop_line l"
  by (auto simp: default_section_filter is_accept_line_def is_drop_line_def suffix_to_prefix)

lemma commit_neither [simp]:
  "\<not> is_accept_line ''COMMIT\<newline>''" "\<not> is_drop_line ''COMMIT\<newline>''"
  by (simp_all add: is_accept_line_def is_drop_line_def suffix_to_prefix)

lemma generate_rules_allow:
  "\<not> drop_mode d \<Longrightarrow> fst (generate_rules e d w) =
     (default_section [''*filter\<newline>''] @ [''COMMIT\<newline>''],
      default_section [''*filter\<newline>''] @ [''COMMIT\<newline>''])"
  by (simp add: generate_rules_def)

lemma generate_rules_frame_shape:
  "\<exists>m4 m6. fst (generate_rules e d w) =
     (default_section [''*filter\<newline>''] @ m4 @ [''COMMIT\<newline>''],
      default_section [''*filter\<newline>''] @ m6 @ [''COMMIT\<newline>''])"
proof (cases "drop_mode d")
  case True
  then show ?thesis by (simp add: generate_rules_block)
next
  case False
  then have "fst (generate_rules e d w) =
     (default_section [''*filter\<newline>''] @ [] @ [''COMMIT\<newline>''],
      default_section [''*filter\<newline>''] @ [] @ [''COMMIT\<newline>''])"
    by (simp add: generate_rules_allow)
  then show ?thesis by blast
qed

lemma accept_before_drop:
  assumes r: "r = A @ B @ C @ D"
    and A: "\<forall>l\<in>set A. \<not> is_accept_line l \<and> \<not> is_drop_line l"
    and B: "\<forall>l\<in>set B. \<not> is_drop_line l"
    and C: "\<forall>l\<in>set C. \<not> is_accept_line l"
    and D: "\<forall>l\<in>set D. \<not> is_accept_line l \<and> \<not> is_drop_line l"
    and i: "i < length r" "is_accept_line (r ! i)"
    and j: "j < length r" "is_drop_line (r ! j)"
  shows "i < j"
proof -
  have i_lt: "i < length A + length B"
  proof (rule ccontr)
    assume "\<not> i < length A + length B"
    then have ge: "length (A @ B) \<le> i" by simp
    have "r ! i = (C @ D) ! (i - length (A @ B))"
      using ge r by (metis append.assoc leD nth_append)
    moreover have "i - length (A @ B) < length (C @ D)" using ge i(1) r by simp
    ultimately have "r ! i \<in> set (C @ D)" by (metis nth_mem)
    with C D i(2) show False by auto
  qed
  have j_ge: "length A + length B \<le> j"
  proof (rule ccontr)
    assume "\<not> length A + length B \<le> j"
    then have lt: "j < length (A @ B)" by simp
    have "r ! j = (A @ B) ! j"
      using lt r by (metis append.assoc nth_append)
    then have "r ! j \<in> set (A @ B)" using lt by (metis nth_mem)
    with A B j(2) show False by auto
  qed
  from i_lt j_ge show ?thesis by simp
qed

lemma filter_accept_shape:
  assumes A: "\<forall>l\<in>set A. \<not> is_accept_line l"
    and B: "\<forall>l\<in>set B. is_accept_line l"
    and C: "\<forall>l\<in>set C. \<not> is_accept_line l"
  shows "filter is_accept_line (A @ B @ C) = B"
proof -
  have "filter is_accept_line A = []" using A by (simp add: filter_empty_conv)
  moreover have "filter is_accept_line B = B" using B by (simp add: filter_id_conv)
  moreover have "filter is_accept_line C = []" using C by (simp add: filter_empty_conv)
  ultimately show ?thesis by simp
qed

lemma filter_drop_shape:
  assumes A: "\<forall>l\<in>set A. \<not> is_drop_line l"
    and B: "\<forall>l\<in>set B. is_drop_line l"
    and C: "\<forall>l\<in>set C. \<not> is_drop_line l"
  shows "filter is_drop_line (A @ B @ C) = B"
proof -
  have "filter is_drop_line A = []" using A by (simp add: filter_empty_conv)
  moreover have "filter is_drop_line B = B" using B by (simp add: filter_id_conv)
  moreover have "filter is_drop_line C = []" using C by (simp add: filter_empty_conv)
  ultimately show ?thesis by simp
qed

lemma count_list_filter_le:
  "P x \<Longrightarrow> count_list (filter P xs) x = count_list xs x"
  by (induction xs) auto

lemma count_list_map_inj:
  "(\<And>a b. f a = f b \<Longrightarrow> a = b) \<Longrightarrow> count_list (map f xs) (f x) = count_list xs x"
  by (induction xs) auto

lemma str_int_22: "str_int 22 = ''22''"
  by (simp add: str_int_def str_nat.simps digit_char_def)

lemma str_int_80: "str_int 80 = ''80''"
  by (simp add: str_int_def str_nat.simps digit_char_def)

lemma str_int_443: "str_int 443 = ''443''"
  by (simp add: str_int_def str_nat.simps digit_char_def)

lemma example_rules:
  "fst (generate_rules example_env \<lparr>drop_mode = True, vips = example_vips\<rparr> world0) =
    ([''*filter\<newline>'', '':INPUT ACCEPT [0:0]\<newline>'', '':FORWARD ACCEPT [0:0]\<newline>'',
      '':OUTPUT ACCEPT [0:0]\<newline>'',
      ''-A INPUT -p tcp -m tcp --dport 22 -j ACCEPT\<newline>'',
      ''-A INPUT -p tcp -m tcp --dport 80 -j ACCEPT\<newline>'',
      ''-A INPUT -p tcp -m tcp --dport 443 -j ACCEPT\<newline>'',
      ''-A INPUT -s 10.0.0.5/32 -j DROP\<newline>'', ''COMMIT\<newline>''],
     [''*filter\<newline>'', '':INPUT ACCEPT [0:0]\<newline>'', '':FORWARD ACCEPT [0:0]\<newline>'',
      '':OUTPUT ACCEPT [0:0]\<newline>'',
      ''-A INPUT -p tcp -m tcp --dport 22 -j ACCEPT\<newline>'',
      ''-A INPUT -p tcp -m tcp --dport 80 -j ACCEPT\<newline>'',
      ''-A INPUT -p tcp -m tcp --dport 443 -j ACCEPT\<newline>'',
      ''-A INPUT -d fd00::5/128 -j DROP\<newline>'', ''COMMIT\<newline>''])"
  by (simp add: generate_rules_block default_section_filter example_env_def example_vips_def
      accept_rule_def v4_drop_rule_def v6_drop_rule_def str_int_22 str_int_80 str_int_443)

subsection \<open>Writer, activator and operations, case by case\<close>

lemma restore_files_cases:
  "restore_files e a b w =
     (case popen e (''iptables-restore < '' @ V4_FILE) (files w) of (rc, out, err) \<Rightarrow>
        if rc \<noteq> 0 then
          (Inl (CallError (''Failed restoring firewall rules: '' @ decode_ignore e err)),
           w\<lparr>trace := trace w @ [Exec (''iptables-restore < '' @ V4_FILE)]\<rparr>)
        else (case popen e (''ip6tables-restore < '' @ V6_FILE) (files w) of (rc2, out2, err2) \<Rightarrow>
          if rc2 \<noteq> 0 then
            (Inl (AttributeError ''deocde''),
             w\<lparr>trace := trace w @ [Exec (''iptables-restore < '' @ V4_FILE),
                                    Exec (''ip6tables-restore < '' @ V6_FILE)]\<rparr>)
          else
            (Inr (),
             w\<lparr>trace := trace w @ [Exec (''iptables-restore < '' @ V4_FILE),
                                    Exec (''ip6tables-restore < '' @ V6_FILE)]\<rparr>)))"
  by (simp add: restore_files_def emit_def Let_def split: prod.splits)

lemma new_events_append: "trace w' = trace w @ evs \<Longrightarrow> new_events w w' = evs"
  by (simp add: new_events_def)

lemma generate_rules_world:
  "snd (generate_rules e d w) =
     w\<lparr>trace := trace w @ (if drop_mode d
        then [Call ''ssh.config'', Call ''system.general.config''] else [])\<rparr>"
  by (simp add: generate_rules_def emit_def Let_def split: prod.splits)

lemma write_files_cases:
  "write_files e a b w =
     (case write_fault e V4_FILE of
        Some (msg, left) \<Rightarrow>
          (Inl (CallError (''Failed writing '' @ V4_FILE @ '' with error '' @ msg)),
           w\<lparr>trace := trace w @ [OpenW V4_FILE], files := (files w)(V4_FILE := left)\<rparr>)
      | None \<Rightarrow>
          (case write_fault e V6_FILE of
             Some (msg, left) \<Rightarrow>
               (Inl (CallError (''Failed writing '' @ V6_FILE @ '' with error '' @ msg)),
                w\<lparr>trace := trace w @ [OpenW V4_FILE, OpenW V6_FILE],
                  files := (files w)(V4_FILE \<mapsto> concat a, V6_FILE := left)\<rparr>)
           | None \<Rightarrow>
               (Inr (),
                w\<lparr>trace := trace w @ [OpenW V4_FILE, OpenW V6_FILE],
                  files := (files w)(V4_FILE \<mapsto> concat a, V6_FILE \<mapsto> concat b)\<rparr>)))"
  by (simp add: write_files_def open_writelines_def emit_def Let_def split: option.splits prod.splits)

lemma write_files_fault:
  assumes "write_fault e V4_FILE \<noteq> None \<or> write_fault e V6_FILE \<noteq> None"
  shows "\<exists>m evs. fst (write_files e a b w) = Inl (CallError (''Failed writing '' @ m))
           \<and> trace (snd (write_files e a b w)) = trace w @ evs
           \<and> (\<forall>ev\<in>set evs. \<not> is_exec ev) \<and> Call ''failover.firewall.restore_files'' \<notin> set evs"
  using assms
  by (auto simp: write_files_cases is_exec_def split: option.splits)

lemma drop_all_unlicensed:
  "\<not> licensed e \<Longrightarrow>
     drop_all e w = (Inr False, w\<lparr>trace := trace w @ [Call ''failover.licensed'']\<rparr>)"
  by (simp add: drop_all_def emit_def)

lemma drop_all_no_vips:
  "licensed e \<Longrightarrow> ip_in_use e = [] \<Longrightarrow>
     drop_all e w =
       (Inl (CallError ''No VIP addresses detected on system''),
        w\<lparr>trace := trace w @ [Call ''failover.licensed'', Call ''interface.ip_in_use'']\<rparr>)"
  by (simp add: drop_all_def emit_def)

lemma accept_all_unlicensed:
  "\<not> licensed e \<Longrightarrow>
     accept_all e w = (Inr False, w\<lparr>trace := trace w @ [Call ''failover.licensed'']\<rparr>)"
  by (simp add: accept_all_def emit_def)

lemma drop_all_write_fault:
  assumes lic: "licensed e" and vs: "ip_in_use e \<noteq> []"
    and fault: "write_fault e V4_FILE \<noteq> None \<or> write_fault e V6_FILE \<noteq> None"
  shows "\<exists>m evs. fst (drop_all e w) = Inl (CallError (''Failed writing '' @ m))
           \<and> trace (snd (drop_all e w)) = trace w @ evs
           \<and> (\<forall>ev\<in>set evs. \<not> is_exec ev) \<and> Call ''failover.firewall.restore_files'' \<notin> set evs"
proof -
  define w3 where "w3 = emit (Call ''failover.firewall.generate_rules'')
    (emit (Call ''interface.ip_in_use'') (emit (Call ''failover.licensed'') w))"
  define d where "d = \<lparr>drop_mode = True, vips = ip_in_use e\<rparr>"
  obtain v4 v6 w4 where g: "generate_rules e d w3 = ((v4, v6), w4)"
    by (metis surj_pair)
  define w5 where "w5 = emit (Call ''failover.firewall.write_files'') w4"
  have "w4 = snd (generate_rules e d w3)" using g by simp
  then have t5: "trace w5 = trace w @ [Call ''failover.licensed'', Call ''interface.ip_in_use'',
      Call ''failover.firewall.generate_rules'', Call ''ssh.config'',
      Call ''system.general.config'', Call ''failover.firewall.write_files'']"
    by (simp add: generate_rules_world w5_def w3_def d_def emit_def)
  from write_files_fault [OF fault, of v4 v6 w5]
  obtain m evs where wf: "fst (write_files e v4 v6 w5) = Inl (CallError (''Failed writing '' @ m))"
    and tr: "trace (snd (write_files e v4 v6 w5)) = trace w5 @ evs"
    and ne: "\<forall>ev\<in>set evs. \<not> is_exec ev" "Call ''failover.firewall.restore_files'' \<notin> set evs"
    by blast
  obtain w6 where w6: "write_files e v4 v6 w5 = (Inl (CallError (''Failed writing '' @ m)), w6)"
    using wf by (metis fst_conv surj_pair)
  have run: "drop_all e w = (Inl (CallError (''Failed writing '' @ m)), w6)"
    using lic vs g w6
    by (simp add: drop_all_def Let_def w3_def [symmetric] d_def [symmetric] w5_def [symmetric])
  have "trace w6 = trace w5 @ evs" using tr w6 by simp
  with t5 have "trace (snd (drop_all e w)) = trace w @
     ([Call ''failover.licensed'', Call ''interface.ip_in_use'',
      Call ''failover.firewall.generate_rules'', Call ''ssh.config'',
      Call ''system.general.config'', Call ''failover.firewall.write_files''] @ evs)"
    using run by simp
  moreover have "\<forall>ev\<in>set ([Call ''failover.licensed'', Call ''interface.ip_in_use'',
      Call ''failover.firewall.generate_rules'', Call ''ssh.config'',
      Call ''system.general.config'', Call ''failover.firewall.write_files''] @ evs). \<not> is_exec ev"
    using ne(1) by (auto simp: is_exec_def)
  moreover have "Call ''failover.firewall.restore_files'' \<notin> set ([Call ''failover.licensed'', Call ''interface.ip_in_use'',
      Call ''failover.firewall.generate_rules'', Call ''ssh.config'',
      Call ''system.general.config'', Call ''failover.firewall.write_files''] @ evs)"
    using ne(2) by simp
  ultimately show ?thesis using run by (metis fst_conv)
qed

lemma accept_all_write_fault:
  assumes lic: "licensed e"
    and fault: "write_fault e V4_FILE \<noteq> None \<or> write_fault e V6_FILE \<noteq> None"
  shows "\<exists>m evs. fst (accept_all e w) = Inl (CallError (''Failed writing '' @ m))
           \<and> trace (snd (accept_all e w)) = trace w @ evs
           \<and> (\<forall>ev\<in>set evs. \<not> is_exec ev) \<and> Call ''failover.firewall.restore_files'' \<notin> set evs"
proof -
  define w3 where "w3 = emit (Call ''failover.firewall.generate_rules'')
    (emit (Call ''failover.licensed'') w)"
  define d where "d = \<lparr>drop_mode = False, vips = []\<rparr>"
  obtain v4 v6 w4 where g: "generate_rules e d w3 = ((v4, v6), w4)"
    by (metis surj_pair)
  define w5 where "w5 = emit (Call ''failover.firewall.write_files'') w4"
  have "w4 = snd (generate_rules e d w3)" using g by simp
  then have t5: "trace w5 = trace w @ [Call ''failover.licensed'',
      Call ''failover.firewall.generate_rules'', Call ''failover.firewall.write_files'']"
    by (simp add: generate_rules_world w5_def w3_def d_def emit_def)
  from write_files_fault [OF fault, of v4 v6 w5]
  obtain m evs where wf: "fst (write_files e v4 v6 w5) = Inl (CallError (''Failed writing '' @ m))"
    and tr: "trace (snd (write_files e v4 v6 w5)) = trace w5 @ evs"
    and ne: "\<forall>ev\<in>set evs. \<not> is_exec ev" "Call ''failover.firewall.restore_files'' \<notin> set evs"
    by blast
  obtain w6 where w6: "write_files e v4 v6 w5 = (Inl (CallError (''Failed writing '' @ m)), w6)"
    using wf by (metis fst_conv surj_pair)
  have run: "accept_all e w = (Inl (CallError (''Failed writing '' @ m)), w6)"
    using lic g w6
    by (simp add: accept_all_def Let_def w3_def [symmetric] d_def [symmetric] w5_def [symmetric])
  have "trace w6 = trace w5 @ evs" using tr w6 by simp
  with t5 have "trace (snd (accept_all e w)) = trace w @
     ([Call ''failover.licensed'',
      Call ''failover.firewall.generate_rules'', Call ''failover.firewall.write_files''] @ evs)"
    using run by simp
  moreover have "\<forall>ev\<in>set ([Call ''failover.licensed'',
      Call ''failover.firewall.generate_rules'', Call ''failover.firewall.write_files''] @ evs). \<not> is_exec ev"
    using ne(1) by (auto simp: is_exec_def)
  moreover have "Call ''failover.firewall.restore_files'' \<notin> set ([Call ''failover.licensed'',
      Call ''failover.firewall.generate_rules'', Call ''failover.firewall.write_files''] @ evs)"
    using ne(2) by simp
  ultimately show ?thesis using run by (metis fst_conv)
qed

lemma write_files_fault_run:
  assumes "write_fault e V4_FILE \<noteq> None \<or> write_fault e V6_FILE \<noteq> None"
  shows "\<exists>x. fst (write_files e a b w) = Inl x
     \<and> (\<forall>msg left. write_fault e V4_FILE = Some (msg, left) \<longrightarrow>
           x = CallError (''Failed writing '' @ V4_FILE @ '' with error '' @ msg))
     \<and> (\<forall>msg left. write_fault e V4_FILE = None \<and> write_fault e V6_FILE = Some (msg, left) \<longrightarrow>
           x = CallError (''Failed writing '' @ V6_FILE @ '' with error '' @ msg))
     \<and> trace (snd (write_files e a b w)) = trace w @
           (if write_fault e V4_FILE \<noteq> None then [OpenW V4_FILE]
            else [OpenW V4_FILE, OpenW V6_FILE])"
  using assms by (auto simp: write_files_cases split: option.splits)

lemma drop_all_write_fault_run:
  assumes lic: "licensed e" and vs: "ip_in_use e \<noteq> []"
    and fault: "write_fault e V4_FILE \<noteq> None \<or> write_fault e V6_FILE \<noteq> None"
  shows "(\<forall>msg left. write_fault e V4_FILE = Some (msg, left) \<longrightarrow>
           fst (drop_all e w) =
             Inl (CallError (''Failed writing '' @ V4_FILE @ '' with error '' @ msg)))
     \<and> (\<forall>msg left. write_fault e V4_FILE = None \<and> write_fault e V6_FILE = Some (msg, left) \<longrightarrow>
           fst (drop_all e w) =
             Inl (CallError (''Failed writing '' @ V6_FILE @ '' with error '' @ msg)))
     \<and> trace (snd (drop_all e w)) = trace w @
          [Call ''failover.licensed'', Call ''interface.ip_in_use'',
           Call ''failover.firewall.generate_rules'', Call ''ssh.config'',
           Call ''system.general.config'', Call ''failover.firewall.write_files''] @
          (if write_fault e V4_FILE \<noteq> None then [OpenW V4_FILE]
           else [OpenW V4_FILE, OpenW V6_FILE])"
proof -
  define w3 where "w3 = emit (Call ''failover.firewall.generate_rules'')
    (emit (Call ''interface.ip_in_use'') (emit (Call ''failover.licensed'') w))"
  define d where "d = \<lparr>drop_mode = True, vips = ip_in_use e\<rparr>"
  obtain v4 v6 w4 where g: "generate_rules e d w3 = ((v4, v6), w4)"
    by (metis surj_pair)
  define w5 where "w5 = emit (Call ''failover.firewall.write_files'') w4"
  have "w4 = snd (generate_rules e d w3)" using g by simp
  then have t5: "trace w5 = trace w @ [Call ''failover.licensed'', Call ''interface.ip_in_use'',
      Call ''failover.firewall.generate_rules'', Call ''ssh.config'',
      Call ''system.general.config'', Call ''failover.firewall.write_files'']"
    by (simp add: generate_rules_world w5_def w3_def d_def emit_def)
  from write_files_fault_run [OF fault, of v4 v6 w5]
  obtain x where wf: "fst (write_files e v4 v6 w5) = Inl x"
    and m4: "\<forall>msg left. write_fault e V4_FILE = Some (msg, left) \<longrightarrow>
           x = CallError (''Failed writing '' @ V4_FILE @ '' with error '' @ msg)"
    and m6: "\<forall>msg left. write_fault e V4_FILE = None \<and> write_fault e V6_FILE = Some (msg, left) \<longrightarrow>
           x = CallError (''Failed writing '' @ V6_FILE @ '' with error '' @ msg)"
    and tr: "trace (snd (write_files e v4 v6 w5)) = trace w5 @
           (if write_fault e V4_FILE \<noteq> None then [OpenW V4_FILE]
            else [OpenW V4_FILE, OpenW V6_FILE])"
    by blast
  obtain w6 where w6: "write_files e v4 v6 w5 = (Inl x, w6)"
    using wf by (metis fst_conv surj_pair)
  have run: "drop_all e w = (Inl x, w6)"
    using lic vs g w6
    by (simp add: drop_all_def Let_def w3_def [symmetric] d_def [symmetric] w5_def [symmetric])
  have "trace w6 = trace w5 @ (if write_fault e V4_FILE \<noteq> None then [OpenW V4_FILE]
            else [OpenW V4_FILE, OpenW V6_FILE])" using tr w6 by simp
  with t5 run m4 m6 show ?thesis by simp
qed

lemma accept_all_write_fault_run:
  assumes lic: "licensed e"
    and fault: "write_fault e V4_FILE \<noteq> None \<or> write_fault e V6_FILE \<noteq> None"
  shows "(\<forall>msg left. write_fault e V4_FILE = Some (msg, left) \<longrightarrow>
           fst (accept_all e w) =
             Inl (CallError (''Failed writing '' @ V4_FILE @ '' with error '' @ msg)))
     \<and> (\<forall>msg left. write_fault e V4_FILE = None \<and> write_fault e V6_FILE = Some (msg, left) \<longrightarrow>
           fst (accept_all e w) =
             Inl (CallError (''Failed writing '' @ V6_FILE @ '' with error '' @ msg)))
     \<and> trace (snd (accept_all e w)) = trace w @
          [Call ''failover.licensed'', Call ''failover.firewall.generate_rules'',
           Call ''failover.firewall.write_files''] @
          (if write_fault e V4_FILE \<noteq> None then [OpenW V4_FILE]
           else [OpenW V4_FILE, OpenW V6_FILE])"
proof -
  define w3 where "w3 = emit (Call ''failover.firewall.generate_rules'')
    (emit (Call ''failover.licensed'') w)"
  define d where "d = \<lparr>drop_mode = False, vips = []\<rparr>"
  obtain v4 v6 w4 where g: "generate_rules e d w3 = ((v4, v6), w4)"
    by (metis surj_pair)
  define w5 where "w5 = emit (Call ''failover.firewall.write_files'') w4"
  have "w4 = snd (generate_rules e d w3)" using g by simp
  then have t5: "trace w5 = trace w @ [Call ''failover.licensed'',
      Call ''failover.firewall.generate_rules'', Call ''failover.firewall.write_files'']"
    by (simp add: generate_rules_world w5_def w3_def d_def emit_def)
  from write_files_fault_run [OF fault, of v4 v6 w5]
  obtain x where wf: "fst (write_files e v4 v6 w5) = Inl x"
    and m4: "\<forall>msg left. write_fault e V4_FILE = Some (msg, left) \<longrightarrow>
           x = CallError (''Failed writing '' @ V4_FILE @ '' with error '' @ msg)"
    and m6: "\<forall>msg left. write_fault e V4_FILE = None \<and> write_fault e V6_FILE = Some (msg, left) \<longrightarrow>
           x = CallError (''Failed writing '' @ V6_FILE @ '' with error '' @ msg)"
    and tr: "trace (snd (write_files e v4 v6 w5)) = trace w5 @
           (if write_fault e V4_FILE \<noteq> None then [OpenW V4_FILE]
            else [OpenW V4_FILE, OpenW V6_FILE])"
    by blast
  obtain w6 where w6: "write_files e v4 v6 w5 = (Inl x, w6)"
    using wf by (metis fst_conv surj_pair)
  have run: "accept_all e w = (Inl x, w6)"
    using lic g w6
    by (simp add: accept_all_def Let_def w3_def [symmetric] d_def [symmetric] w5_def [symmetric])
  have "trace w6 = trace w5 @ (if write_fault e V4_FILE \<noteq> None then [OpenW V4_FILE]
            else [OpenW V4_FILE, OpenW V6_FILE])" using tr w6 by simp
  with t5 run m4 m6 show ?thesis by simp
qed

lemma example_files: "V4_FILE = ''/data/v4-fw.rules''" "V6_FILE = ''/data/v6-fw.rules''"
  by (simp_all add: V4_FILE_def V6_FILE_def)

lemma world0_trace: "trace world0 = []"
  by (simp add: world0_def)

lemma ascii_ignore_example: "ascii_ignore [0x42, 0x61, 0xFF, 0x64] = ''Bad''"
  by code_simp

lemma restore_v4_fails:
  "restore_files v4_fails_env a b world0 =
     (Inl (CallError ''Failed restoring firewall rules: Bad''),
      world0\<lparr>trace := [Exec ''iptables-restore < /data/v4-fw.rules'']\<rparr>)"
  by (simp add: restore_files_cases v4_fails_env_def example_env_def example_files
      ascii_ignore_example world0_trace)

lemma restore_v6_fails:
  "restore_files v6_fails_env a b world0 =
     (Inl (AttributeError ''deocde''),
      world0\<lparr>trace := [Exec ''iptables-restore < /data/v4-fw.rules'',
                         Exec ''ip6tables-restore < /data/v6-fw.rules'']\<rparr>)"
  by (simp add: restore_files_cases v6_fails_env_def example_env_def example_files world0_trace)

section \<open>The claims\<close>

subsection \<open>The generator\<close>

text \<open>
  C3. With \<^verbatim>\<open>data['drop']\<close> false, whatever the list of addresses holds, both rule
  lists are the five lines table marker, INPUT, FORWARD and OUTPUT policy set to
  accept, commit marker, and nothing else.
\<close>

theorem generate_rules_allow_all:
  "fst (generate_rules e \<lparr>drop_mode = False, vips = vs\<rparr> w) =
     ([''*filter\<newline>'', '':INPUT ACCEPT [0:0]\<newline>'', '':FORWARD ACCEPT [0:0]\<newline>'',
       '':OUTPUT ACCEPT [0:0]\<newline>'', ''COMMIT\<newline>''],
      [''*filter\<newline>'', '':INPUT ACCEPT [0:0]\<newline>'', '':FORWARD ACCEPT [0:0]\<newline>'',
       '':OUTPUT ACCEPT [0:0]\<newline>'', ''COMMIT\<newline>''])"
  by (simp add: generate_rules_def default_section_filter)

text \<open>
  C1. In Block mode (\<^verbatim>\<open>data['drop']\<close> true), in the IPv4 and in the IPv6 rule list
  alike, the accept lines are exactly the three lines made from the remote-shell port,
  the plain web port and the encrypted web port, in this order: one line for each admin
  port. The line of a port \<open>p\<close> therefore occurs as often as \<open>p\<close> occurs among the
  three ports, which is once when the ports differ. Every accept line stands at a
  smaller index than every drop line.
\<close>

theorem generate_rules_admin_accepts:
  assumes gen: "generate_rules e \<lparr>drop_mode = True, vips = vs\<rparr> w = ((v4rules, v6rules), w')"
    and r: "r = v4rules \<or> r = v6rules"
  shows "filter is_accept_line r =
           [accept_rule (tcpport e), accept_rule (ui_port e), accept_rule (ui_httpsport e)]
         \<and> (\<forall>p. count_list r (accept_rule p) =
                  count_list [tcpport e, ui_port e, ui_httpsport e] p)
         \<and> (\<forall>i j. i < length r \<and> j < length r \<and> is_accept_line (r ! i) \<and> is_drop_line (r ! j)
                \<longrightarrow> i < j)"
proof -
  define H where "H = default_section [''*filter\<newline>'']"
  define P where "P = [accept_rule (tcpport e), accept_rule (ui_port e), accept_rule (ui_httpsport e)]"
  define D4 where "D4 = map (\<lambda>i. v4_drop_rule (address i)) (filter (\<lambda>i. vip_type i = ''INET'') vs)"
  define D6 where "D6 = map (\<lambda>i. v6_drop_rule (address i)) (filter (\<lambda>i. vip_type i = ''INET6'') vs)"
  have "fst (generate_rules e \<lparr>drop_mode = True, vips = vs\<rparr> w) =
          (H @ P @ D4 @ [''COMMIT\<newline>''], H @ P @ D6 @ [''COMMIT\<newline>''])"
    unfolding H_def P_def D4_def D6_def by (simp add: generate_rules_block)
  with gen have v4: "v4rules = H @ P @ D4 @ [''COMMIT\<newline>'']"
    and v6: "v6rules = H @ P @ D6 @ [''COMMIT\<newline>'']" by simp_all
  have H: "\<forall>l\<in>set H. \<not> is_accept_line l \<and> \<not> is_drop_line l"
    unfolding H_def using header_neither by blast
  have P: "\<forall>l\<in>set P. is_accept_line l" "\<forall>l\<in>set P. \<not> is_drop_line l"
    unfolding P_def by simp_all
  have D4: "\<forall>l\<in>set D4. \<not> is_accept_line l" and D6: "\<forall>l\<in>set D6. \<not> is_accept_line l"
    unfolding D4_def D6_def by auto
  have K: "\<forall>l\<in>set [''COMMIT\<newline>'']. \<not> is_accept_line l \<and> \<not> is_drop_line l" by simp
  from r obtain D where shape: "r = H @ P @ D @ [''COMMIT\<newline>'']"
    and D: "\<forall>l\<in>set D. \<not> is_accept_line l"
    using v4 v6 D4 D6 by blast
  have "\<forall>l\<in>set (D @ [''COMMIT\<newline>'']). \<not> is_accept_line l" using D by simp
  with H P(1) have flt: "filter is_accept_line r = P"
    unfolding shape by (intro filter_accept_shape) auto
  have cnt: "count_list r (accept_rule p) = count_list [tcpport e, ui_port e, ui_httpsport e] p" for p
  proof -
    have "count_list r (accept_rule p) = count_list (filter is_accept_line r) (accept_rule p)"
      by (simp add: count_list_filter_le)
    also have "\<dots> = count_list (map accept_rule [tcpport e, ui_port e, ui_httpsport e]) (accept_rule p)"
      unfolding flt P_def by simp
    also have "\<dots> = count_list [tcpport e, ui_port e, ui_httpsport e] p"
      by (rule count_list_map_inj) (rule accept_rule_inj)
    finally show ?thesis .
  qed
  have ord: "i < j" if "i < length r" "j < length r" "is_accept_line (r ! i)" "is_drop_line (r ! j)" for i j
    using shape H P(2) D K that(1,3,2,4) by (rule accept_before_drop)
  from flt cnt ord show ?thesis unfolding P_def by blast
qed

text \<open>The same at ports 22, 80 and 443 with one address of each family tag.\<close>

theorem generate_rules_admin_accepts_witness:
  "filter is_accept_line
      (fst (fst (generate_rules example_env \<lparr>drop_mode = True, vips = example_vips\<rparr> world0))) =
     [accept_rule 22, accept_rule 80, accept_rule 443]
   \<and> count_list (fst (fst (generate_rules example_env \<lparr>drop_mode = True, vips = example_vips\<rparr> world0)))
        (accept_rule 80) = 1
   \<and> is_accept_line (fst (fst (generate_rules example_env \<lparr>drop_mode = True, vips = example_vips\<rparr> world0)) ! 6)
   \<and> is_drop_line (fst (fst (generate_rules example_env \<lparr>drop_mode = True, vips = example_vips\<rparr> world0)) ! 7)
   \<and> (6::nat) < 7"
proof -
  obtain v4 v6 w' where g:
    "generate_rules example_env \<lparr>drop_mode = True, vips = example_vips\<rparr> world0 = ((v4, v6), w')"
    by (metis surj_pair)
  have v4: "v4 = fst (fst (generate_rules example_env \<lparr>drop_mode = True, vips = example_vips\<rparr> world0))"
    using g by simp
  have ports: "tcpport example_env = 22" "ui_port example_env = 80" "ui_httpsport example_env = 443"
    by (simp_all add: example_env_def)
  from generate_rules_admin_accepts [OF g, of v4]
  have "filter is_accept_line v4 = [accept_rule 22, accept_rule 80, accept_rule 443]"
    and "count_list v4 (accept_rule 80) = count_list [22, 80, 443] (80::int)"
    by (simp_all add: ports)
  moreover have "is_accept_line (v4 ! 6)" "is_drop_line (v4 ! 7)"
    unfolding v4 example_rules
    by (simp_all add: is_accept_line_def is_drop_line_def suffix_to_prefix)
  ultimately show ?thesis unfolding v4 [symmetric] by simp
qed

text \<open>
  C2. In Block mode the drop lines of the IPv4 rule list are, in order, one line for each
  address tagged \<^verbatim>\<open>INET\<close>, and those of the IPv6 rule list one line for each address
  tagged \<^verbatim>\<open>INET6\<close>; besides them each list holds its four opening lines, the
  three accept lines and the commit marker. The line of an address ends in the address
  followed by \<^verbatim>\<open>/32\<close> (IPv4) or \<^verbatim>\<open>/128\<close> (IPv6) and the drop target. An address
  with any other tag adds no line to either list; the generator has no raising branch,
  it returns a pair of rule lists for every input.
\<close>

theorem generate_rules_vip_drops:
  assumes gen: "generate_rules e \<lparr>drop_mode = True, vips = vs\<rparr> w = ((v4rules, v6rules), w')"
  shows "filter is_drop_line v4rules =
           map (\<lambda>i. v4_drop_rule (address i)) (filter (\<lambda>i. vip_type i = ''INET'') vs)
       \<and> filter is_drop_line v6rules =
           map (\<lambda>i. v6_drop_rule (address i)) (filter (\<lambda>i. vip_type i = ''INET6'') vs)
       \<and> length v4rules = 8 + length (filter (\<lambda>i. vip_type i = ''INET'') vs)
       \<and> length v6rules = 8 + length (filter (\<lambda>i. vip_type i = ''INET6'') vs)
       \<and> (\<forall>i\<in>set vs. suffix (address i @ ''/32 -j DROP\<newline>'') (v4_drop_rule (address i))
                      \<and> suffix (address i @ ''/128 -j DROP\<newline>'') (v6_drop_rule (address i)))
       \<and> ((\<forall>i\<in>set vs. vip_type i \<noteq> ''INET'' \<and> vip_type i \<noteq> ''INET6'') \<longrightarrow>
            filter is_drop_line v4rules = [] \<and> filter is_drop_line v6rules = [])"
proof -
  define H where "H = default_section [''*filter\<newline>''] @
     [accept_rule (tcpport e), accept_rule (ui_port e), accept_rule (ui_httpsport e)]"
  define D4 where "D4 = map (\<lambda>i. v4_drop_rule (address i)) (filter (\<lambda>i. vip_type i = ''INET'') vs)"
  define D6 where "D6 = map (\<lambda>i. v6_drop_rule (address i)) (filter (\<lambda>i. vip_type i = ''INET6'') vs)"
  have "fst (generate_rules e \<lparr>drop_mode = True, vips = vs\<rparr> w) =
          (H @ D4 @ [''COMMIT\<newline>''], H @ D6 @ [''COMMIT\<newline>''])"
    unfolding H_def D4_def D6_def by (simp add: generate_rules_block)
  with gen have v4: "v4rules = H @ D4 @ [''COMMIT\<newline>'']"
    and v6: "v6rules = H @ D6 @ [''COMMIT\<newline>'']" by simp_all
  have H: "\<forall>l\<in>set H. \<not> is_drop_line l"
    unfolding H_def using header_neither by auto
  have lenH: "length H = 7" unfolding H_def by (simp add: default_section_filter)
  have D4: "\<forall>l\<in>set D4. is_drop_line l" and D6: "\<forall>l\<in>set D6. is_drop_line l"
    unfolding D4_def D6_def by auto
  have K: "\<forall>l\<in>set [''COMMIT\<newline>'']. \<not> is_drop_line l" by simp
  have f4: "filter is_drop_line v4rules = D4"
    unfolding v4 using H D4 K by (rule filter_drop_shape)
  have f6: "filter is_drop_line v6rules = D6"
    unfolding v6 using H D6 K by (rule filter_drop_shape)
  have l4: "length v4rules = 8 + length (filter (\<lambda>i. vip_type i = ''INET'') vs)"
    unfolding v4 by (simp add: lenH D4_def)
  have l6: "length v6rules = 8 + length (filter (\<lambda>i. vip_type i = ''INET6'') vs)"
    unfolding v6 by (simp add: lenH D6_def)
  have host: "suffix (a @ ''/32 -j DROP\<newline>'') (v4_drop_rule a)
      \<and> suffix (a @ ''/128 -j DROP\<newline>'') (v6_drop_rule a)" for a
    by (simp add: v4_drop_rule_def v6_drop_rule_def suffix_def)
  have none: "D4 = [] \<and> D6 = []" if "\<forall>i\<in>set vs. vip_type i \<noteq> ''INET'' \<and> vip_type i \<noteq> ''INET6''"
    using that unfolding D4_def D6_def by (simp add: filter_empty_conv)
  show ?thesis
    using f4 f6 l4 l6 host none unfolding D4_def D6_def by simp
qed

text \<open>One IPv4 address, one IPv6 address and one link-layer address.\<close>

theorem generate_rules_vip_drops_witness:
  "filter is_drop_line (fst (fst (generate_rules example_env \<lparr>drop_mode = True, vips = example_vips\<rparr> world0)))
     = [''-A INPUT -s 10.0.0.5/32 -j DROP\<newline>'']
   \<and> filter is_drop_line (snd (fst (generate_rules example_env \<lparr>drop_mode = True, vips = example_vips\<rparr> world0)))
     = [''-A INPUT -d fd00::5/128 -j DROP\<newline>'']
   \<and> length (fst (fst (generate_rules example_env \<lparr>drop_mode = True, vips = example_vips\<rparr> world0))) = 9
   \<and> length (snd (fst (generate_rules example_env \<lparr>drop_mode = True, vips = example_vips\<rparr> world0))) = 9"
proof -
  obtain v4 v6 w' where g:
    "generate_rules example_env \<lparr>drop_mode = True, vips = example_vips\<rparr> world0 = ((v4, v6), w')"
    by (metis surj_pair)
  have v: "fst (fst (generate_rules example_env \<lparr>drop_mode = True, vips = example_vips\<rparr> world0)) = v4"
    "snd (fst (generate_rules example_env \<lparr>drop_mode = True, vips = example_vips\<rparr> world0)) = v6"
    using g by simp_all
  from generate_rules_vip_drops [OF g] show ?thesis
    unfolding v by (simp add: example_vips_def v4_drop_rule_def v6_drop_rule_def)
qed

text \<open>
  C9. For every mode, address list and ports, each rule list returned by the generator
  has at least five lines, begins with the table marker followed by the INPUT, FORWARD
  and OUTPUT policy lines, and ends with the commit marker.
\<close>

theorem generate_rules_frame:
  assumes gen: "generate_rules e d w = ((v4rules, v6rules), w')"
    and r: "r = v4rules \<or> r = v6rules"
  shows "5 \<le> length r
       \<and> r ! 0 = ''*filter\<newline>''
       \<and> r ! 1 = '':INPUT ACCEPT [0:0]\<newline>''
       \<and> r ! 2 = '':FORWARD ACCEPT [0:0]\<newline>''
       \<and> r ! 3 = '':OUTPUT ACCEPT [0:0]\<newline>''
       \<and> r ! (length r - 1) = ''COMMIT\<newline>''"
proof -
  from generate_rules_frame_shape [of e d w] gen r
  obtain m where "r = default_section [''*filter\<newline>''] @ m @ [''COMMIT\<newline>'']"
    by auto
  then have shape: "r = [''*filter\<newline>'', '':INPUT ACCEPT [0:0]\<newline>'',
      '':FORWARD ACCEPT [0:0]\<newline>'', '':OUTPUT ACCEPT [0:0]\<newline>''] @ (m @ [''COMMIT\<newline>''])"
    by (simp add: default_section_filter)
  have last: "r ! (length r - 1) = ''COMMIT\<newline>''"
    unfolding shape by (simp add: nth_append)
  have "5 \<le> length r" unfolding shape by simp
  moreover have "r ! 0 = ''*filter\<newline>''" "r ! 1 = '':INPUT ACCEPT [0:0]\<newline>''"
    "r ! 2 = '':FORWARD ACCEPT [0:0]\<newline>''" "r ! 3 = '':OUTPUT ACCEPT [0:0]\<newline>''"
    unfolding shape by simp_all
  ultimately show ?thesis using last by simp
qed

text \<open>The IPv6 rule list of the example, in Block mode.\<close>

theorem generate_rules_frame_witness:
  "(let r = snd (fst (generate_rules example_env \<lparr>drop_mode = True, vips = example_vips\<rparr> world0))
    in 5 \<le> length r \<and> r ! 0 = ''*filter\<newline>'' \<and> r ! 1 = '':INPUT ACCEPT [0:0]\<newline>''
       \<and> r ! 2 = '':FORWARD ACCEPT [0:0]\<newline>'' \<and> r ! 3 = '':OUTPUT ACCEPT [0:0]\<newline>''
       \<and> r ! (length r - 1) = ''COMMIT\<newline>'')"
proof -
  obtain v4 v6 w' where g:
    "generate_rules example_env \<lparr>drop_mode = True, vips = example_vips\<rparr> world0 = ((v4, v6), w')"
    by (metis surj_pair)
  have v: "snd (fst (generate_rules example_env \<lparr>drop_mode = True, vips = example_vips\<rparr> world0)) = v6"
    using g by simp
  from generate_rules_frame [OF g, of v6] show ?thesis
    unfolding v Let_def by simp
qed

text \<open>
  C6. The drop line written for an IPv4 address matches on the source address
  (\<^verbatim>\<open>-s\<close>), while the one written for an IPv6 address matches on the destination
  (\<^verbatim>\<open>-d\<close>), which is what the docstring of \<^verbatim>\<open>drop_all\<close> describes for both families.
  Evaluated on the address 10.0.0.5.
\<close>

theorem generate_rules_v4_drop_matches_source:
  "fst (fst (generate_rules example_env \<lparr>drop_mode = True, vips = example_vips\<rparr> world0)) ! 7 =
     ''-A INPUT -s 10.0.0.5/32 -j DROP\<newline>''
   \<and> snd (fst (generate_rules example_env \<lparr>drop_mode = True, vips = example_vips\<rparr> world0)) ! 7 =
     ''-A INPUT -d fd00::5/128 -j DROP\<newline>''"
  by (simp add: example_rules)

subsection \<open>The activator\<close>

text \<open>
  C4, as stated, fails: when the IPv4 restore command exits with status 1, the IPv6
  restore command is never started.
\<close>

theorem restore_files_v4_failure_skips_v6:
  "fst (popen v4_fails_env ''iptables-restore < /data/v4-fw.rules'' (files world0)) = 1
   \<and> Exec ''ip6tables-restore < /data/v6-fw.rules''
        \<notin> set (new_events world0 (snd (restore_files v4_fails_env [] [] world0)))"
proof -
  have "fst (popen v4_fails_env ''iptables-restore < /data/v4-fw.rules'' (files world0)) = 1"
    by (simp add: v4_fails_env_def)
  moreover have "new_events world0 (snd (restore_files v4_fails_env [] [] world0)) =
      [Exec ''iptables-restore < /data/v4-fw.rules'']"
    by (simp add: restore_v4_fails new_events_def world0_trace)
  ultimately show ?thesis by simp
qed

text \<open>
  C4, amended. The activator always starts the IPv4 restore command first. It starts the
  IPv6 restore command exactly when the IPv4 command exits with status zero. A non-zero
  IPv4 status raises at once the call error \<^verbatim>\<open>Failed restoring firewall rules:\<close>
  followed by the decoded standard error of that command, and leaves the IPv6 command
  unattempted. When both commands exit with status zero the activator returns. The rules
  files are left as they were in every case.
\<close>

theorem restore_files_attempts:
  "new_events w (snd (restore_files e v4rules v6rules w)) =
     (if fst (popen e (''iptables-restore < '' @ V4_FILE) (files w)) \<noteq> 0
      then [Exec (''iptables-restore < '' @ V4_FILE)]
      else [Exec (''iptables-restore < '' @ V4_FILE), Exec (''ip6tables-restore < '' @ V6_FILE)])
   \<and> (fst (popen e (''iptables-restore < '' @ V4_FILE) (files w)) \<noteq> 0 \<longrightarrow>
        fst (restore_files e v4rules v6rules w) =
          Inl (CallError (''Failed restoring firewall rules: '' @
            decode_ignore e (snd (snd (popen e (''iptables-restore < '' @ V4_FILE) (files w)))))))
   \<and> (fst (popen e (''iptables-restore < '' @ V4_FILE) (files w)) = 0
        \<and> fst (popen e (''ip6tables-restore < '' @ V6_FILE) (files w)) = 0 \<longrightarrow>
        fst (restore_files e v4rules v6rules w) = Inr ())
   \<and> files (snd (restore_files e v4rules v6rules w)) = files w"
  by (simp add: restore_files_cases new_events_def split: prod.splits)

text \<open>Both branches: a failing and a succeeding IPv4 restore.\<close>

theorem restore_files_attempts_witness:
  "fst (popen v4_fails_env ''iptables-restore < /data/v4-fw.rules'' (files world0)) = 1
   \<and> new_events world0 (snd (restore_files v4_fails_env [] [] world0)) =
     [Exec ''iptables-restore < /data/v4-fw.rules'']
   \<and> fst (restore_files v4_fails_env [] [] world0) =
     Inl (CallError ''Failed restoring firewall rules: Bad'')
   \<and> fst (popen example_env ''iptables-restore < /data/v4-fw.rules'' (files world0)) = 0
   \<and> fst (popen example_env ''ip6tables-restore < /data/v6-fw.rules'' (files world0)) = 0
   \<and> new_events world0 (snd (restore_files example_env [] [] world0)) =
     [Exec ''iptables-restore < /data/v4-fw.rules'', Exec ''ip6tables-restore < /data/v6-fw.rules'']
   \<and> fst (restore_files example_env [] [] world0) = Inr ()"
  using restore_files_attempts [of world0 v4_fails_env "[]" "[]"]
    restore_files_attempts [of world0 example_env "[]" "[]"]
  by (simp add: v4_fails_env_def example_env_def example_files ascii_ignore_example)

text \<open>
  C5. When the IPv6 restore command exits with a non-zero status, the activator raises
  \<^verbatim>\<open>AttributeError\<close> for the misspelt \<^verbatim>\<open>deocde\<close> and no activation error carrying the
  captured text; the IPv4 path raises the activation error with the text decoded and the
  undecodable byte left out.
\<close>

theorem restore_files_v6_error_path:
  "fst (restore_files v6_fails_env [] [] world0) = Inl (AttributeError ''deocde'')
   \<and> fst (restore_files v4_fails_env [] [] world0) =
       Inl (CallError ''Failed restoring firewall rules: Bad'')"
  by (simp add: restore_v4_fails restore_v6_fails)

text \<open>
  C10. Two runs of the activator on worlds with the same files give the same result
  (return or raised error) and start the same commands, whatever rule lists they are
  handed; the files themselves are left unchanged.
\<close>

theorem restore_files_ignores_arguments:
  assumes "files w = files w'"
  shows "fst (restore_files e v4rules v6rules w) = fst (restore_files e v4rules' v6rules' w')
       \<and> new_events w (snd (restore_files e v4rules v6rules w)) =
           new_events w' (snd (restore_files e v4rules' v6rules' w'))
       \<and> files (snd (restore_files e v4rules v6rules w)) = files w
       \<and> files (snd (restore_files e v4rules' v6rules' w')) = files w'"
  using assms by (simp add: restore_files_cases new_events_def split: prod.splits)

text \<open>Different rule lists and different earlier traces over the same files.\<close>

theorem restore_files_ignores_arguments_witness:
  "files world0 = files (world0\<lparr>trace := [Call ''failover.firewall.restore_files'']\<rparr>)
   \<and> fst (restore_files v4_fails_env [''*filter\<newline>'', ''COMMIT\<newline>''] [] world0) =
       fst (restore_files v4_fails_env [] [''COMMIT\<newline>'']
             (world0\<lparr>trace := [Call ''failover.firewall.restore_files'']\<rparr>))
   \<and> new_events world0 (snd (restore_files v4_fails_env [''*filter\<newline>'', ''COMMIT\<newline>''] [] world0)) =
       new_events (world0\<lparr>trace := [Call ''failover.firewall.restore_files'']\<rparr>)
         (snd (restore_files v4_fails_env [] [''COMMIT\<newline>'']
             (world0\<lparr>trace := [Call ''failover.firewall.restore_files'']\<rparr>)))"
proof -
  have f: "files world0 = files (world0\<lparr>trace := [Call ''failover.firewall.restore_files'']\<rparr>)"
    by simp
  from restore_files_ignores_arguments [OF f, of v4_fails_env] f show ?thesis by blast
qed

subsection \<open>The operations\<close>

text \<open>
  C7. Let the environment make the write of either rules file fail. Then neither
  \<^verbatim>\<open>drop_all\<close> nor \<^verbatim>\<open>accept_all\<close> starts a shell command or calls
  \<^verbatim>\<open>restore_files\<close>, whatever the licence and the address list. On a licensed
  system (with at least one address, for \<^verbatim>\<open>drop_all\<close>) the operation raises the call
  error \<^verbatim>\<open>Failed writing\<close> naming the first file whose write fails and the text of the
  fault, and what it did before is exactly: the lookups, the generator, the call of
  \<^verbatim>\<open>write_files\<close>, the write of the IPv4 file and, if that one succeeded, the write of
  the IPv6 file.
\<close>

theorem write_failure_blocks_activation:
  assumes fault: "write_fault e V4_FILE \<noteq> None \<or> write_fault e V6_FILE \<noteq> None"
  shows "(\<forall>ev\<in>set (new_events w (snd (drop_all e w))). \<not> is_exec ev)
       \<and> Call ''failover.firewall.restore_files'' \<notin> set (new_events w (snd (drop_all e w)))
       \<and> (Call ''failover.firewall.write_files'' \<in> set (new_events w (snd (drop_all e w))) \<longrightarrow>
            (\<exists>m. fst (drop_all e w) = Inl (CallError (''Failed writing '' @ m))))
       \<and> (licensed e \<and> ip_in_use e \<noteq> [] \<longrightarrow>
            (\<forall>msg left. write_fault e V4_FILE = Some (msg, left) \<longrightarrow>
               fst (drop_all e w) =
                 Inl (CallError (''Failed writing '' @ V4_FILE @ '' with error '' @ msg)))
          \<and> (\<forall>msg left. write_fault e V4_FILE = None \<and> write_fault e V6_FILE = Some (msg, left) \<longrightarrow>
               fst (drop_all e w) =
                 Inl (CallError (''Failed writing '' @ V6_FILE @ '' with error '' @ msg)))
          \<and> new_events w (snd (drop_all e w)) =
               [Call ''failover.licensed'', Call ''interface.ip_in_use'',
                Call ''failover.firewall.generate_rules'', Call ''ssh.config'',
                Call ''system.general.config'', Call ''failover.firewall.write_files''] @
               (if write_fault e V4_FILE \<noteq> None then [OpenW V4_FILE]
                else [OpenW V4_FILE, OpenW V6_FILE]))
       \<and> (\<forall>ev\<in>set (new_events w (snd (accept_all e w))). \<not> is_exec ev)
       \<and> Call ''failover.firewall.restore_files'' \<notin> set (new_events w (snd (accept_all e w)))
       \<and> (Call ''failover.firewall.write_files'' \<in> set (new_events w (snd (accept_all e w))) \<longrightarrow>
            (\<exists>m. fst (accept_all e w) = Inl (CallError (''Failed writing '' @ m))))
       \<and> (licensed e \<longrightarrow>
            (\<forall>msg left. write_fault e V4_FILE = Some (msg, left) \<longrightarrow>
               fst (accept_all e w) =
                 Inl (CallError (''Failed writing '' @ V4_FILE @ '' with error '' @ msg)))
          \<and> (\<forall>msg left. write_fault e V4_FILE = None \<and> write_fault e V6_FILE = Some (msg, left) \<longrightarrow>
               fst (accept_all e w) =
                 Inl (CallError (''Failed writing '' @ V6_FILE @ '' with error '' @ msg)))
          \<and> new_events w (snd (accept_all e w)) =
               [Call ''failover.licensed'', Call ''failover.firewall.generate_rules'',
                Call ''failover.firewall.write_files''] @
               (if write_fault e V4_FILE \<noteq> None then [OpenW V4_FILE]
                else [OpenW V4_FILE, OpenW V6_FILE]))"
proof -
  have quiet: "(\<forall>ev\<in>set (new_events w (snd (op e w))). \<not> is_exec ev)
       \<and> Call ''failover.firewall.restore_files'' \<notin> set (new_events w (snd (op e w)))
       \<and> (Call ''failover.firewall.write_files'' \<in> set (new_events w (snd (op e w))) \<longrightarrow>
            (\<exists>m. fst (op e w) = Inl (CallError (''Failed writing '' @ m))))"
    if op: "op = drop_all \<or> op = accept_all" for op
  proof (cases "licensed e")
    case False
    then have "op e w = (Inr False, w\<lparr>trace := trace w @ [Call ''failover.licensed'']\<rparr>)"
      using op drop_all_unlicensed accept_all_unlicensed by metis
    then have "new_events w (snd (op e w)) = [Call ''failover.licensed'']"
      by (simp add: new_events_def)
    then show ?thesis by (simp add: is_exec_def)
  next
    case lic: True
    show ?thesis
    proof (cases "op = drop_all \<and> ip_in_use e = []")
      case True
      then have "op e w = (Inl (CallError ''No VIP addresses detected on system''),
          w\<lparr>trace := trace w @ [Call ''failover.licensed'', Call ''interface.ip_in_use'']\<rparr>)"
        using lic drop_all_no_vips by metis
      then have "new_events w (snd (op e w)) =
          [Call ''failover.licensed'', Call ''interface.ip_in_use'']"
        by (simp add: new_events_def)
      then show ?thesis by (simp add: is_exec_def)
    next
      case False
      have "\<exists>m evs. fst (op e w) = Inl (CallError (''Failed writing '' @ m))
             \<and> trace (snd (op e w)) = trace w @ evs
             \<and> (\<forall>ev\<in>set evs. \<not> is_exec ev)
             \<and> Call ''failover.firewall.restore_files'' \<notin> set evs"
      proof (cases "op = drop_all")
        case True
        with False have "ip_in_use e \<noteq> []" by simp
        from drop_all_write_fault [OF lic this fault] True show ?thesis by simp
      next
        case False
        with op have "op = accept_all" by simp
        with accept_all_write_fault [OF lic fault] show ?thesis by simp
      qed
      then obtain m evs where res: "fst (op e w) = Inl (CallError (''Failed writing '' @ m))"
        and tr: "trace (snd (op e w)) = trace w @ evs"
        and ne: "\<forall>ev\<in>set evs. \<not> is_exec ev"
          "Call ''failover.firewall.restore_files'' \<notin> set evs"
        by blast
      from tr have "new_events w (snd (op e w)) = evs" by (rule new_events_append)
      with res ne show ?thesis by simp
    qed
  qed
  have d: "licensed e \<and> ip_in_use e \<noteq> [] \<longrightarrow>
            (\<forall>msg left. write_fault e V4_FILE = Some (msg, left) \<longrightarrow>
               fst (drop_all e w) =
                 Inl (CallError (''Failed writing '' @ V4_FILE @ '' with error '' @ msg)))
          \<and> (\<forall>msg left. write_fault e V4_FILE = None \<and> write_fault e V6_FILE = Some (msg, left) \<longrightarrow>
               fst (drop_all e w) =
                 Inl (CallError (''Failed writing '' @ V6_FILE @ '' with error '' @ msg)))
          \<and> new_events w (snd (drop_all e w)) =
               [Call ''failover.licensed'', Call ''interface.ip_in_use'',
                Call ''failover.firewall.generate_rules'', Call ''ssh.config'',
                Call ''system.general.config'', Call ''failover.firewall.write_files''] @
               (if write_fault e V4_FILE \<noteq> None then [OpenW V4_FILE]
                else [OpenW V4_FILE, OpenW V6_FILE])"
  proof
    assume a: "licensed e \<and> ip_in_use e \<noteq> []"
    then have lic: "licensed e" and vs: "ip_in_use e \<noteq> []" by simp_all
    from drop_all_write_fault_run [OF lic vs fault, of w]
    show "(\<forall>msg left. write_fault e V4_FILE = Some (msg, left) \<longrightarrow>
               fst (drop_all e w) =
                 Inl (CallError (''Failed writing '' @ V4_FILE @ '' with error '' @ msg)))
          \<and> (\<forall>msg left. write_fault e V4_FILE = None \<and> write_fault e V6_FILE = Some (msg, left) \<longrightarrow>
               fst (drop_all e w) =
                 Inl (CallError (''Failed writing '' @ V6_FILE @ '' with error '' @ msg)))
          \<and> new_events w (snd (drop_all e w)) =
               [Call ''failover.licensed'', Call ''interface.ip_in_use'',
                Call ''failover.firewall.generate_rules'', Call ''ssh.config'',
                Call ''system.general.config'', Call ''failover.firewall.write_files''] @
               (if write_fault e V4_FILE \<noteq> None then [OpenW V4_FILE]
                else [OpenW V4_FILE, OpenW V6_FILE])"
      by (simp add: new_events_def)
  qed
  have a: "licensed e \<longrightarrow>
            (\<forall>msg left. write_fault e V4_FILE = Some (msg, left) \<longrightarrow>
               fst (accept_all e w) =
                 Inl (CallError (''Failed writing '' @ V4_FILE @ '' with error '' @ msg)))
          \<and> (\<forall>msg left. write_fault e V4_FILE = None \<and> write_fault e V6_FILE = Some (msg, left) \<longrightarrow>
               fst (accept_all e w) =
                 Inl (CallError (''Failed writing '' @ V6_FILE @ '' with error '' @ msg)))
          \<and> new_events w (snd (accept_all e w)) =
               [Call ''failover.licensed'', Call ''failover.firewall.generate_rules'',
                Call ''failover.firewall.write_files''] @
               (if write_fault e V4_FILE \<noteq> None then [OpenW V4_FILE]
                else [OpenW V4_FILE, OpenW V6_FILE])"
  proof
    assume lic: "licensed e"
    from accept_all_write_fault_run [OF lic fault, of w]
    show "(\<forall>msg left. write_fault e V4_FILE = Some (msg, left) \<longrightarrow>
               fst (accept_all e w) =
                 Inl (CallError (''Failed writing '' @ V4_FILE @ '' with error '' @ msg)))
          \<and> (\<forall>msg left. write_fault e V4_FILE = None \<and> write_fault e V6_FILE = Some (msg, left) \<longrightarrow>
               fst (accept_all e w) =
                 Inl (CallError (''Failed writing '' @ V6_FILE @ '' with error '' @ msg)))
          \<and> new_events w (snd (accept_all e w)) =
               [Call ''failover.licensed'', Call ''failover.firewall.generate_rules'',
                Call ''failover.firewall.write_files''] @
               (if write_fault e V4_FILE \<noteq> None then [OpenW V4_FILE]
                else [OpenW V4_FILE, OpenW V6_FILE])"
      by (simp add: new_events_def)
  qed
  from quiet [of drop_all] quiet [of accept_all] d a show ?thesis by blast
qed

text \<open>
  A full disk on the IPv6 rules file, for both operations, and an input/output error on
  the IPv4 rules file.
\<close>

theorem write_failure_blocks_activation_witness:
  "licensed v6_write_fails_env \<and> ip_in_use v6_write_fails_env \<noteq> []
   \<and> write_fault v6_write_fails_env V4_FILE = None
   \<and> write_fault v6_write_fails_env V6_FILE =
        Some (''[Errno 28] No space left on device'', Some [])
   \<and> fst (drop_all v6_write_fails_env world0) =
        Inl (CallError ''Failed writing /data/v6-fw.rules with error [Errno 28] No space left on device'')
   \<and> new_events world0 (snd (drop_all v6_write_fails_env world0)) =
        [Call ''failover.licensed'', Call ''interface.ip_in_use'',
         Call ''failover.firewall.generate_rules'', Call ''ssh.config'',
         Call ''system.general.config'', Call ''failover.firewall.write_files'',
         OpenW V4_FILE, OpenW V6_FILE]
   \<and> filter is_exec (new_events world0 (snd (drop_all v6_write_fails_env world0))) = []
   \<and> fst (accept_all v6_write_fails_env world0) =
        Inl (CallError ''Failed writing /data/v6-fw.rules with error [Errno 28] No space left on device'')
   \<and> new_events world0 (snd (accept_all v6_write_fails_env world0)) =
        [Call ''failover.licensed'', Call ''failover.firewall.generate_rules'',
         Call ''failover.firewall.write_files'', OpenW V4_FILE, OpenW V6_FILE]
   \<and> filter is_exec (new_events world0 (snd (accept_all v6_write_fails_env world0))) = []
   \<and> licensed v4_write_fails_env
   \<and> write_fault v4_write_fails_env V4_FILE = Some (''[Errno 5] Input/output error'', None)
   \<and> fst (accept_all v4_write_fails_env world0) =
        Inl (CallError ''Failed writing /data/v4-fw.rules with error [Errno 5] Input/output error'')
   \<and> new_events world0 (snd (accept_all v4_write_fails_env world0)) =
        [Call ''failover.licensed'', Call ''failover.firewall.generate_rules'',
         Call ''failover.firewall.write_files'', OpenW V4_FILE]"
proof -
  have h6: "licensed v6_write_fails_env" "ip_in_use v6_write_fails_env \<noteq> []"
    "write_fault v6_write_fails_env V4_FILE = None"
    "write_fault v6_write_fails_env V6_FILE =
        Some (''[Errno 28] No space left on device'', Some [])"
    by (simp_all add: v6_write_fails_env_def example_env_def example_vips_def example_files)
  have h4: "licensed v4_write_fails_env"
    "write_fault v4_write_fails_env V4_FILE = Some (''[Errno 5] Input/output error'', None)"
    by (simp_all add: v4_write_fails_env_def example_env_def example_files)
  have f6: "write_fault v6_write_fails_env V4_FILE \<noteq> None
      \<or> write_fault v6_write_fails_env V6_FILE \<noteq> None"
    using h6 by simp
  have f4: "write_fault v4_write_fails_env V4_FILE \<noteq> None
      \<or> write_fault v4_write_fails_env V6_FILE \<noteq> None"
    using h4 by simp
  have m: "''Failed writing '' @ V6_FILE @ '' with error '' @ ''[Errno 28] No space left on device''
      = ''Failed writing /data/v6-fw.rules with error [Errno 28] No space left on device''"
    "''Failed writing '' @ V4_FILE @ '' with error '' @ ''[Errno 5] Input/output error''
      = ''Failed writing /data/v4-fw.rules with error [Errno 5] Input/output error''"
    by (simp_all add: example_files)
  from write_failure_blocks_activation [OF f6, of world0]
    write_failure_blocks_activation [OF f4, of world0] h6 h4 m
  show ?thesis by (simp add: filter_empty_conv)
qed

text \<open>
  C8. Without a licence \<^verbatim>\<open>drop_all\<close> returns \<^verbatim>\<open>False\<close>, raises nothing, leaves
  the files as they were and makes no call besides the licensing check. With a licence
  and an empty address list it raises the call error \<^verbatim>\<open>No VIP addresses detected on
  system\<close>, again with the files untouched and nothing called besides the two lookups.
\<close>

theorem drop_all_preconditions:
  "(\<not> licensed e \<longrightarrow>
      fst (drop_all e w) = Inr False
      \<and> files (snd (drop_all e w)) = files w
      \<and> new_events w (snd (drop_all e w)) = [Call ''failover.licensed''])
   \<and> (licensed e \<and> ip_in_use e = [] \<longrightarrow>
      fst (drop_all e w) = Inl (CallError ''No VIP addresses detected on system'')
      \<and> files (snd (drop_all e w)) = files w
      \<and> new_events w (snd (drop_all e w)) =
          [Call ''failover.licensed'', Call ''interface.ip_in_use''])"
  by (simp add: drop_all_unlicensed drop_all_no_vips new_events_def)

text \<open>An unlicensed system, and a licensed one with no address.\<close>

theorem drop_all_preconditions_witness:
  "\<not> licensed unlicensed_env
   \<and> fst (drop_all unlicensed_env world0) = Inr False
   \<and> files (snd (drop_all unlicensed_env world0)) = files world0
   \<and> new_events world0 (snd (drop_all unlicensed_env world0)) = [Call ''failover.licensed'']
   \<and> licensed no_vips_env \<and> ip_in_use no_vips_env = []
   \<and> fst (drop_all no_vips_env world0) = Inl (CallError ''No VIP addresses detected on system'')
   \<and> files (snd (drop_all no_vips_env world0)) = files world0
   \<and> new_events world0 (snd (drop_all no_vips_env world0)) =
        [Call ''failover.licensed'', Call ''interface.ip_in_use'']"
proof -
  have u: "\<not> licensed unlicensed_env" by (simp add: unlicensed_env_def)
  have n: "licensed no_vips_env \<and> ip_in_use no_vips_env = []"
    by (simp add: no_vips_env_def example_env_def)
  from drop_all_preconditions [of unlicensed_env world0]
    drop_all_preconditions [of no_vips_env world0] u n
  show ?thesis by simp
qed

end
